theory Spec2Isabelle
  imports Main
begin

section \<open>Data model of pane.go\<close>

text \<open>
  The Go struct \<open>Pane\<close>. Go's \<open>int\<close> fields are modelled as \<open>int\<close>: the program does no
  arithmetic on them, and the only values it computes for them come out of
  \<open>strconv.Atoi\<close>, which keeps to the 64-bit range. Strings are byte lists, as Go's are.
\<close>

record Pane =
  ID :: int
  SessionId :: int
  SessionName :: string
  WindowId :: int
  WindowName :: string
  WindowIndex :: int
  Active :: bool

text \<open>The two sentinel errors of package strconv and Go's \<open>error\<close> values.\<close>

datatype num_err = ErrSyntax | ErrRange

datatype error =
    RunnerError string
  | NumError string string num_err

text \<open>Run-time panics of the Go program.\<close>

datatype panic = SliceBoundsOutOfRange | IndexOutOfRange | NilDereference

datatype 'a outcome = Panic panic | Return 'a

text \<open>
  The state the program acts on: the heap cells holding \<open>Pane\<close> structs (a \<open>*Pane\<close> is an
  address; an address outside the domain stands for \<open>nil\<close>), the argument vectors handed to
  \<open>RunCmd\<close> so far, and the text written with \<open>fmt.Println\<close>.
\<close>

record world =
  heap :: "nat \<rightharpoonup> Pane"
  calls :: "string list list"
  printed :: "string list"

text \<open>
  \<open>RunCmd\<close> is not part of pane.go: it is a parameter. A runner answers an argument vector
  with (stdout, stderr, error), and its answer may depend on the invocations made before.
\<close>

type_synonym runner = "string list list \<Rightarrow> string list \<Rightarrow> string \<times> string \<times> error option"

definition RunCmd :: "runner \<Rightarrow> string list \<Rightarrow> world \<Rightarrow> (string \<times> string \<times> error option) \<times> world" where
  "RunCmd rn args w = (rn (calls w) args, w\<lparr>calls := calls w @ [args]\<rparr>)"

section \<open>Library functions used by pane.go\<close>

abbreviation NL :: char where
  "NL \<equiv> CHR 0x0A"

subsection \<open>fmt.Sprintf with the verbs \<open>%s\<close> and \<open>%d\<close>\<close>

definition digit_char :: "nat \<Rightarrow> char" where
  "digit_char d = ''0123456789'' ! d"

function nat_dec :: "nat \<Rightarrow> string" where
  "nat_dec n = (if n < 10 then [digit_char n] else nat_dec (n div 10) @ [digit_char (n mod 10)])"
  by pat_completeness auto
termination
  by (relation "measure id") auto

declare nat_dec.simps [simp del]

definition itoa :: "int \<Rightarrow> string" where
  "itoa i = (if i < 0 then CHR ''-'' # nat_dec (nat (- i)) else nat_dec (nat i))"

datatype operand = S string | D int

text \<open>
  A verb consumes the next operand. The calls of pane.go always pair \<open>%s\<close> with a string and
  \<open>%d\<close> with an int; any other pairing is rendered as the marker \<open>%!\<close>.
\<close>

fun Sprintf :: "string \<Rightarrow> operand list \<Rightarrow> string" where
  "Sprintf [] ops = []"
| "Sprintf [c] ops = [c]"
| "Sprintf (c # v # fs) ops =
     (if c = CHR ''%'' then
        (case (v, ops) of
           (CHR ''s'', S x # ops') \<Rightarrow> x @ Sprintf fs ops'
         | (CHR ''d'', D i # ops') \<Rightarrow> itoa i @ Sprintf fs ops'
         | (_, ops') \<Rightarrow> ''%!'' @ Sprintf fs (tl ops'))
      else c # Sprintf (v # fs) ops)"

text \<open>
  The target strings. pane.go writes them inline, the same expression at every use:
  \<open>fmt.Sprintf("%s:%d", p.SessionName, p.WindowId)\<close> and
  \<open>fmt.Sprintf("%s:%d.%d", p.SessionName, p.WindowId, p.ID)\<close>.
\<close>

definition window_target :: "Pane \<Rightarrow> string" where
  "window_target p = Sprintf ''%s:%d'' [S (SessionName p), D (WindowId p)]"

definition pane_target :: "Pane \<Rightarrow> string" where
  "pane_target p = Sprintf ''%s:%d.%d'' [S (SessionName p), D (WindowId p), D (ID p)]"

subsection \<open>fmt.Println and strings.Join\<close>

fun Join :: "string list \<Rightarrow> string \<Rightarrow> string" where
  "Join [] sep = []"
| "Join [x] sep = x"
| "Join (x # y # ys) sep = x @ sep @ Join (y # ys) sep"

text \<open>\<open>fmt.Println\<close> on string operands: a space between operands, a newline at the end.\<close>

definition Println :: "string list \<Rightarrow> string" where
  "Println ops = Join ops '' '' @ [NL]"

subsection \<open>strings.SplitN and strings.Split, for a one-byte separator\<close>

text \<open>
  \<open>SplitN s c n\<close> for \<open>n \<ge> 0\<close>: at most \<open>n\<close> pieces, the last one the unsplit rest; no
  piece at all for \<open>n = 0\<close>. \<open>strings.Split\<close> is the same with one piece more than the
  separator occurs (Go's \<open>genSplit\<close> sets \<open>n = Count(s, sep) + 1\<close>).
\<close>

fun SplitN :: "string \<Rightarrow> char \<Rightarrow> nat \<Rightarrow> string list" where
  "SplitN s c 0 = []"
| "SplitN s c (Suc 0) = [s]"
| "SplitN s c (Suc (Suc n)) =
     (if c \<in> set s
      then takeWhile (\<lambda>x. x \<noteq> c) s # SplitN (tl (dropWhile (\<lambda>x. x \<noteq> c) s)) c (Suc n)
      else [s])"

definition Split :: "string \<Rightarrow> char \<Rightarrow> string list" where
  "Split s c = SplitN s c (Suc (count_list s c))"

subsection \<open>strconv.Atoi\<close>

text \<open>
  Go documents \<open>Atoi(s)\<close> as \<open>ParseInt(s, 10, 0)\<close> converted to \<open>int\<close>; \<open>int\<close> has 64 bits
  on the platforms tmux runs on. \<open>ParseUint\<close> scans left to right and stops at the first
  byte that is no digit (syntax error, value 0) or at the first overflow (range error,
  value the largest unsigned number).
\<close>

definition is_digit :: "char \<Rightarrow> bool" where
  "is_digit c = (c \<in> set ''0123456789'')"

definition digit_val :: "char \<Rightarrow> nat" where
  "digit_val c = of_char c - 48"

definition maxUint64 :: nat where
  "maxUint64 = 18446744073709551615"

fun ParseUint_loop :: "nat \<Rightarrow> string \<Rightarrow> num_err + nat" where
  "ParseUint_loop n [] = Inr n"
| "ParseUint_loop n (c # cs) =
     (if \<not> is_digit c then Inl ErrSyntax
      else if n \<ge> maxUint64 div 10 + 1 then Inl ErrRange
      else if n * 10 + digit_val c > maxUint64 then Inl ErrRange
      else ParseUint_loop (n * 10 + digit_val c) cs)"

definition ParseUint :: "string \<Rightarrow> nat \<times> num_err option" where
  "ParseUint s =
     (if s = [] then (0, Some ErrSyntax)
      else case ParseUint_loop 0 s of
             Inl ErrSyntax \<Rightarrow> (0, Some ErrSyntax)
           | Inl ErrRange \<Rightarrow> (maxUint64, Some ErrRange)
           | Inr n \<Rightarrow> (n, None))"

definition ParseInt :: "string \<Rightarrow> int \<times> error option" where
  "ParseInt s0 =
     (if s0 = [] then (0, Some (NumError ''ParseInt'' s0 ErrSyntax))
      else
        let neg = (hd s0 = CHR ''-'');
            s = (if hd s0 = CHR ''+'' \<or> hd s0 = CHR ''-'' then tl s0 else s0);
            (un, err) = ParseUint s
        in if err = Some ErrSyntax then (0, Some (NumError ''ParseInt'' s0 ErrSyntax))
           else if \<not> neg \<and> un \<ge> 2 ^ 63 then (2 ^ 63 - 1, Some (NumError ''ParseInt'' s0 ErrRange))
           else if neg \<and> un > 2 ^ 63 then (- (2 ^ 63), Some (NumError ''ParseInt'' s0 ErrRange))
           else (if neg then - int un else int un, None))"

definition Atoi :: "string \<Rightarrow> int \<times> error option" where
  "Atoi s =
     (case ParseInt s of
        (i, Some (NumError f n e)) \<Rightarrow> (i, Some (NumError ''Atoi'' n e))
      | (i, err) \<Rightarrow> (i, err))"

subsection \<open>regexp: leftmost-first matching by backtracking\<close>

text \<open>
  Package regexp returns the match that begins as early as possible and, among those, the
  one a backtracking engine finds first. The pattern of pane.go is a sequence of literal
  bytes, greedy repetitions \<open>(k+)\<close> of a character class and one single-character group;
  every group is a capture. The classes are \<open>[0-9]\<close>, \<open>.\<close> (any byte but newline) and
  \<open>[01]\<close>. All literals of the pattern are ASCII, so matching bytes gives the same
  submatches as matching UTF-8 runes.
\<close>

datatype cls = Digit | AnyChar | Bit

fun cls_ok :: "cls \<Rightarrow> char \<Rightarrow> bool" where
  "cls_ok Digit c = is_digit c"
| "cls_ok AnyChar c = (c \<noteq> NL)"
| "cls_ok Bit c = (c = CHR ''0'' \<or> c = CHR ''1'')"

datatype item = Lit char | CapOne cls | CapPlus cls

text \<open>Tries the lengths \<open>n, n - 1, ..., 1\<close> in this order: the longest repetition first.\<close>

fun longest_first :: "(nat \<Rightarrow> 'b option) \<Rightarrow> nat \<Rightarrow> 'b option" where
  "longest_first f 0 = None"
| "longest_first f (Suc n) =
     (case f (Suc n) of Some y \<Rightarrow> Some y | None \<Rightarrow> longest_first f n)"

text \<open>
  \<open>match_here r s\<close> matches the pattern \<open>r\<close> at the start of \<open>s\<close> and returns the
  captured groups with the text after the match.
\<close>

fun match_here :: "item list \<Rightarrow> string \<Rightarrow> (string list \<times> string) option" where
  "match_here [] s = Some ([], s)"
| "match_here (Lit c # r) s =
     (case s of [] \<Rightarrow> None
      | x # xs \<Rightarrow> if x = c then match_here r xs else None)"
| "match_here (CapOne k # r) s =
     (case s of [] \<Rightarrow> None
      | x # xs \<Rightarrow>
          if cls_ok k x
          then map_option (\<lambda>(cs, t). ([x] # cs, t)) (match_here r xs)
          else None)"
| "match_here (CapPlus k # r) s =
     longest_first
       (\<lambda>n. map_option (\<lambda>(cs, t). (take n s # cs, t)) (match_here r (drop n s)))
       (length (takeWhile (cls_ok k) s))"

fun find_leftmost :: "item list \<Rightarrow> string \<Rightarrow> string list option" where
  "find_leftmost r [] =
     (case match_here r [] of
        Some (cs, t) \<Rightarrow> Some ([] # cs)
      | None \<Rightarrow> None)"
| "find_leftmost r (x # xs) =
     (case match_here r (x # xs) of
        Some (cs, t) \<Rightarrow> Some (take (length (x # xs) - length t) (x # xs) # cs)
      | None \<Rightarrow> find_leftmost r xs)"

text \<open>\<open>FindStringSubmatch\<close>: the whole match followed by the groups, or nil.\<close>

definition FindStringSubmatch :: "item list \<Rightarrow> string \<Rightarrow> string list" where
  "FindStringSubmatch r s = (case find_leftmost r s of None \<Rightarrow> [] | Some res \<Rightarrow> res)"

section \<open>Listing panes\<close>

definition paneParts :: nat where
  "paneParts = 7"

text \<open>The pattern \<^verbatim>\<open>\$([0-9]+):(.+):@([0-9]+):(.+):([0-9]+):%([0-9]+):([01])\<close>.\<close>

definition pane_re :: "item list" where
  "pane_re =
     [Lit (CHR ''$''), CapPlus Digit, Lit (CHR '':''), CapPlus AnyChar, Lit (CHR '':''),
      Lit (CHR ''@''), CapPlus Digit, Lit (CHR '':''), CapPlus AnyChar, Lit (CHR '':''),
      CapPlus Digit, Lit (CHR '':''), Lit (CHR ''%''), CapPlus Digit, Lit (CHR '':''),
      CapOne Bit]"

text \<open>
  The body of the \<open>for\<close> loop over the lines, with the slice \<open>panes\<close> as accumulator. A
  failing \<open>Atoi\<close> returns \<open>nil\<close> (the empty list) and the error at once.
\<close>

fun parse_lines :: "string list \<Rightarrow> Pane list \<Rightarrow> Pane list \<times> error option" where
  "parse_lines [] panes = (panes, None)"
| "parse_lines (line # rest) panes =
     (let result = FindStringSubmatch pane_re line
      in if length result \<le> paneParts then parse_lines rest panes
         else
           (case Atoi (result ! 1) of
              (_, Some e) \<Rightarrow> ([], Some e)
            | (sessionID, None) \<Rightarrow>
           (case Atoi (result ! 3) of
              (_, Some e) \<Rightarrow> ([], Some e)
            | (windowID, None) \<Rightarrow>
           (case Atoi (result ! 5) of
              (_, Some e) \<Rightarrow> ([], Some e)
            | (windowIndex, None) \<Rightarrow>
           (case Atoi (result ! 6) of
              (_, Some e) \<Rightarrow> ([], Some e)
            | (paneIndex, None) \<Rightarrow>
                parse_lines rest
                  (panes @
                   [\<lparr>ID = paneIndex, SessionId = sessionID, SessionName = result ! 2,
                     WindowId = windowID, WindowName = result ! 4,
                     WindowIndex = windowIndex, Active = (result ! 7 = ''1'')\<rparr>]))))))"

definition list_format :: string where
  "list_format =
     Join [''#{session_id}'', ''#{session_name}'', ''#{window_id}'', ''#{window_name}'',
           ''#{window_index}'', ''#{pane_id}'', ''#{pane_active}''] '':''"

text \<open>\<open>func ListPanes(args []string) ([]Pane, error)\<close>\<close>

definition ListPanes :: "string list \<Rightarrow> runner \<Rightarrow> world \<Rightarrow> (Pane list \<times> error option) \<times> world" where
  "ListPanes args rn w =
     (let args = [''list-panes'', ''-F'', list_format] @ args;
          ((out, _, err), w') = RunCmd rn args w
      in if err \<noteq> None then (([], err), w')
         else (parse_lines (Split out NL) [], w'))"

section \<open>Pane operations\<close>

text \<open>\<open>func (p *Pane) Capture() (string, error)\<close>\<close>

definition Capture :: "nat \<Rightarrow> runner \<Rightarrow> world \<Rightarrow> (string \<times> error option) outcome \<times> world" where
  "Capture p rn w =
     (case heap w p of
        None \<Rightarrow> (Panic NilDereference, w)
      | Some pn \<Rightarrow>
          (let args = [''capture-pane'', ''-t'', pane_target pn, ''-p''];
               ((out, stdErr, err), w') = RunCmd rn args w
           in if err \<noteq> None then (Return (stdErr, err), w')
              else (Return (out, None), w')))"

text \<open>\<open>func (p *Pane) GetCurrentPath() (string, error)\<close>; the receiver is never read.\<close>

definition GetCurrentPath :: "nat \<Rightarrow> runner \<Rightarrow> world \<Rightarrow> (string \<times> error option) outcome \<times> world" where
  "GetCurrentPath p rn w =
     (let args = [''display-message'', ''-P'', ''-F'', ''#{pane_current_path}''];
          ((out, _, err), w') = RunCmd rn args w
      in if err \<noteq> None then (Return ([], err), w')
         else if length out < 1 then (Panic SliceBoundsOutOfRange, w')
         else (Return (take (length out - 1) out, None), w'))"

text \<open>\<open>func (p *Pane) SetFocus() error\<close>\<close>

definition SetFocus :: "nat \<Rightarrow> runner \<Rightarrow> world \<Rightarrow> error option outcome \<times> world" where
  "SetFocus p rn w =
     (case heap w p of
        None \<Rightarrow> (Panic NilDereference, w)
      | Some pn \<Rightarrow>
          (let args = [''select-window'', ''-t'', window_target pn];
               ((_, _, err), w1) = RunCmd rn args w;
               args = [''select-pane'', ''-t'', pane_target pn];
               ((_, _, err), w2) = RunCmd rn args w1
           in (Return err, w2)))"

text \<open>A store through a \<open>*Pane\<close>: \<open>p.f = v\<close>.\<close>

definition store :: "nat \<Rightarrow> (Pane \<Rightarrow> Pane) \<Rightarrow> world \<Rightarrow> world" where
  "store a f w = w\<lparr>heap := (heap w)(a := map_option f (heap w a))\<rparr>"

text \<open>
  \<open>func (p *Pane) MovePane(pane_target *Pane, focus bool) error\<close>. The two pointers may
  be equal, so each assignment reads the destination from the heap as it is then.
\<close>

definition MovePane :: "nat \<Rightarrow> nat \<Rightarrow> bool \<Rightarrow> runner \<Rightarrow> world \<Rightarrow> error option outcome \<times> world" where
  "MovePane p t focus rn w =
     (case heap w p of
        None \<Rightarrow> (Panic NilDereference, w)
      | Some pn \<Rightarrow>
     (case heap w t of
        None \<Rightarrow> (Panic NilDereference, w)
      | Some tn \<Rightarrow>
          (let args = [''join-pane'', ''-s'', pane_target pn, ''-t'', window_target tn];
               args = (if \<not> focus then args @ [''-d''] else args);
               w1 = w\<lparr>printed := printed w @
                      [Println [''MOVE PANE FROM '', pane_target pn, ''TO'', window_target tn]]\<rparr>;
               ((_, _, err), w2) = RunCmd rn args w1
           in (case heap w2 t of
                 None \<Rightarrow> (Panic NilDereference, w2)
               | Some t1 \<Rightarrow>
                   (let w3 = store p (\<lambda>x. x\<lparr>WindowName := WindowName t1\<rparr>) w2
                    in (case heap w3 t of
                          None \<Rightarrow> (Panic NilDereference, w3)
                        | Some t2 \<Rightarrow>
                            (let w4 = store p (\<lambda>x. x\<lparr>WindowId := WindowId t2\<rparr>) w3
                             in (Return err, w4))))))))"

text \<open>\<open>func (p *Pane) GetCurrentSize() (int, int, error)\<close>\<close>

definition GetCurrentSize :: "nat \<Rightarrow> runner \<Rightarrow> world \<Rightarrow> (int \<times> int \<times> error option) outcome \<times> world" where
  "GetCurrentSize p rn w =
     (case heap w p of
        None \<Rightarrow> (Panic NilDereference, w)
      | Some pn \<Rightarrow>
          (let args = [''display-message'', ''-p'', ''-t'', pane_target pn, ''-F'',
                       ''#{pane_width}x#{pane_height}''];
               ((out, _, err), w') = RunCmd rn args w
           in if err \<noteq> None then (Return (0, 0, err), w')
              else if length out < 1 then (Panic SliceBoundsOutOfRange, w')
              else
                (let out = take (length out - 1) out;
                     data = SplitN out (CHR ''x'') 2;
                     (wd, _) = Atoi (data ! 0)
                 in if length data \<le> 1 then (Panic IndexOutOfRange, w')
                    else (let (h, _) = Atoi (data ! 1) in (Return (wd, h, None), w')))))"

section \<open>The loop body of ListPanes, by parts\<close>

text \<open>
  What the body of the loop does with the submatches \<open>result\<close> of a matched line: the first
  \<open>Atoi\<close> error among the groups 1, 3, 5 and 6, in this order, and the struct it appends
  when there is none.
\<close>

definition numeric_failure :: "string list \<Rightarrow> error option" where
  "numeric_failure result =
     (case snd (Atoi (result ! 1)) of Some e \<Rightarrow> Some e | None \<Rightarrow>
     (case snd (Atoi (result ! 3)) of Some e \<Rightarrow> Some e | None \<Rightarrow>
     (case snd (Atoi (result ! 5)) of Some e \<Rightarrow> Some e | None \<Rightarrow>
      snd (Atoi (result ! 6)))))"

definition pane_of_submatch :: "string list \<Rightarrow> Pane" where
  "pane_of_submatch result =
     \<lparr>ID = fst (Atoi (result ! 6)), SessionId = fst (Atoi (result ! 1)),
      SessionName = result ! 2, WindowId = fst (Atoi (result ! 3)),
      WindowName = result ! 4, WindowIndex = fst (Atoi (result ! 5)),
      Active = (result ! 7 = ''1'')\<rparr>"

section \<open>What a match consists of\<close>

text \<open>The items of a pattern that are groups.\<close>

fun is_capture :: "item \<Rightarrow> bool" where
  "is_capture (Lit c) = False"
| "is_capture (CapOne k) = True"
| "is_capture (CapPlus k) = True"


text \<open>What a group can capture: one character of its class, or a non-empty run of them.\<close>

fun capture_ok :: "item \<Rightarrow> string \<Rightarrow> bool" where
  "capture_ok (Lit c) s = True"
| "capture_ok (CapOne k) s = (case s of [x] \<Rightarrow> cls_ok k x | _ \<Rightarrow> False)"
| "capture_ok (CapPlus k) s = (s \<noteq> [] \<and> (\<forall>x\<in>set s. cls_ok k x))"

section \<open>The listing format of the specification\<close>



section \<open>Sample panes, runners and listings\<close>

definition demo_pane :: Pane where
  "demo_pane = \<lparr>ID = 1, SessionId = 0, SessionName = ''main'', WindowId = 2,
                 WindowName = ''editor'', WindowIndex = 0, Active = True\<rparr>"

definition demo_dest :: Pane where
  "demo_dest = \<lparr>ID = 0, SessionId = 0, SessionName = ''main'', WindowId = 5,
                 WindowName = ''logs'', WindowIndex = 1, Active = False\<rparr>"

definition demo_world :: world where
  "demo_world = \<lparr>heap = [0 \<mapsto> demo_pane, 1 \<mapsto> demo_dest], calls = [], printed = []\<rparr>"

definition ok_runner :: "string \<Rightarrow> runner" where
  "ok_runner out = (\<lambda>h a. (out, [], None))"

definition failing_runner :: "string \<Rightarrow> runner" where
  "failing_runner msg = (\<lambda>h a. ([], msg, Some (RunnerError ''exit status 1'')))"

definition first_fails_runner :: runner where
  "first_fails_runner =
     (\<lambda>h a. if h = [] then ([], ''no such window'', Some (RunnerError ''exit status 1''))
            else ([], [], None))"

definition first_pane_line :: string where
  "first_pane_line = ''$1:main:@1:shell:0:%0:1''"


definition bad_session_line :: string where
  "bad_session_line = ''$x:main:@1:shell:0:%0:1''"

definition overflow_line :: string where
  "overflow_line = ''$99999999999999999999:main:@1:shell:0:%1:0''"



section \<open>Facts about the library functions\<close>

subsection \<open>Sprintf and the target strings\<close>

lemma window_target_eq: "window_target p = SessionName p @ '':'' @ itoa (WindowId p)"
  by (simp add: window_target_def)

lemma pane_target_eq:
  "pane_target p = SessionName p @ '':'' @ itoa (WindowId p) @ ''.'' @ itoa (ID p)"
  by (simp add: pane_target_def)

lemmas itoa_eval = itoa_def nat_dec.simps digit_char_def

subsection \<open>Atoi\<close>

lemma is_digit_digit_char: "d < 10 \<Longrightarrow> is_digit (digit_char d)"
proof -
  assume "d < 10"
  then have "d \<in> {0, 1, 2, 3, 4, 5, 6, 7, 8, 9}" by auto
  then show ?thesis by (auto simp add: is_digit_def digit_char_def)
qed

lemma digit_val_digit_char: "d < 10 \<Longrightarrow> digit_val (digit_char d) = d"
proof -
  assume "d < 10"
  then have "d \<in> {0, 1, 2, 3, 4, 5, 6, 7, 8, 9}" by auto
  then show ?thesis by (auto simp add: digit_val_def digit_char_def)
qed

lemma digit_val_less: "is_digit c \<Longrightarrow> digit_val c < 10"
  by (auto simp add: is_digit_def digit_val_def)

lemma nat_dec_digits: "c \<in> set (nat_dec n) \<Longrightarrow> is_digit c"
proof (induction n rule: nat_dec.induct)
  case (1 n)
  then show ?case
    by (subst (asm) (2) nat_dec.simps) (auto simp add: is_digit_digit_char split: if_splits)
qed

lemma nat_dec_nonempty: "nat_dec n \<noteq> []"
  by (subst nat_dec.simps) simp

lemma ParseUint_loop_snoc:
  "ParseUint_loop a (xs @ [c]) =
     (case ParseUint_loop a xs of
        Inl e \<Rightarrow> Inl e
      | Inr m \<Rightarrow> ParseUint_loop m [c])"
  by (induction xs arbitrary: a) auto

lemma ParseUint_loop_nat_dec:
  "n \<le> maxUint64 \<Longrightarrow> ParseUint_loop 0 (nat_dec n) = Inr n"
proof (induction n rule: nat_dec.induct)
  case (1 n)
  show ?case
  proof (cases "n < 10")
    case True
    then show ?thesis
      by (subst nat_dec.simps) (simp add: is_digit_digit_char digit_val_digit_char maxUint64_def)
  next
    case False
    have le: "n div 10 \<le> maxUint64" using "1.prems" by simp
    have ih: "ParseUint_loop 0 (nat_dec (n div 10)) = Inr (n div 10)"
      using "1.IH" [OF False le] .
    have d: "n mod 10 < 10" by simp
    have c: "\<not> maxUint64 div 10 + 1 \<le> n div 10" using "1.prems" by (simp add: maxUint64_def)
    have e: "n div 10 * 10 + n mod 10 = n" by simp
    show ?thesis
      using False "1.prems" c
      by (subst nat_dec.simps)
         (simp add: ParseUint_loop_snoc ih is_digit_digit_char digit_val_digit_char e
               del: div_mult_mod_eq)
  qed
qed

lemma ParseUint_nat_dec: "n \<le> maxUint64 \<Longrightarrow> ParseUint (nat_dec n) = (n, None)"
  by (simp add: ParseUint_def nat_dec_nonempty ParseUint_loop_nat_dec)

lemma hd_nat_dec_digit: "is_digit (hd (nat_dec n))"
  using nat_dec_digits [of "hd (nat_dec n)" n] nat_dec_nonempty [of n] by simp

lemma Atoi_itoa:
  assumes "- (2 ^ 63) \<le> i" and "i < 2 ^ 63"
  shows "Atoi (itoa i) = (i, None)"
proof (cases "i < 0")
  case True
  have "nat (- i) \<le> maxUint64" using assms by (simp add: maxUint64_def)
  then have "ParseUint (nat_dec (nat (- i))) = (nat (- i), None)" by (rule ParseUint_nat_dec)
  moreover have "\<not> (2::nat) ^ 63 < nat (- i)" using assms by simp
  ultimately show ?thesis using True
    by (simp add: Atoi_def ParseInt_def itoa_def)
next
  case False
  have "nat i \<le> maxUint64" using assms by (simp add: maxUint64_def)
  then have pu: "ParseUint (nat_dec (nat i)) = (nat i, None)" by (rule ParseUint_nat_dec)
  have nosign: "hd (nat_dec (nat i)) \<noteq> CHR ''-''" "hd (nat_dec (nat i)) \<noteq> CHR ''+''"
    using hd_nat_dec_digit [of "nat i"] by (auto simp add: is_digit_def)
  have "\<not> (2::nat) ^ 63 \<le> nat i" using assms False by simp
  then show ?thesis using False pu nosign
    by (simp add: Atoi_def ParseInt_def itoa_def nat_dec_nonempty)
qed

lemma ParseUint_loop_digits_no_syntax:
  "\<forall>c\<in>set s. is_digit c \<Longrightarrow> ParseUint_loop n s \<noteq> Inl ErrSyntax"
  by (induction s arbitrary: n) auto

lemma Atoi_outcomes:
  "snd (Atoi s) = None \<or>
   Atoi s = (0, Some (NumError ''Atoi'' s ErrSyntax)) \<or>
   Atoi s = (2 ^ 63 - 1, Some (NumError ''Atoi'' s ErrRange)) \<or>
   Atoi s = (- (2 ^ 63), Some (NumError ''Atoi'' s ErrRange))"
  by (auto simp add: Atoi_def ParseInt_def ParseUint_def Let_def
        split: prod.splits option.splits error.splits sum.splits num_err.splits if_splits)

lemma Atoi_digits:
  assumes "s \<noteq> []" and "\<forall>c\<in>set s. is_digit c"
  shows "snd (Atoi s) = None \<or> Atoi s = (2 ^ 63 - 1, Some (NumError ''Atoi'' s ErrRange))"
proof -
  have "hd s \<in> set s" using assms(1) by simp
  then have "is_digit (hd s)" using assms(2) by blast
  then have nosign: "hd s \<noteq> CHR ''-''" "hd s \<noteq> CHR ''+''" by (auto simp add: is_digit_def)
  have "ParseUint_loop 0 s \<noteq> Inl ErrSyntax"
    using assms(2) by (rule ParseUint_loop_digits_no_syntax)
  then show ?thesis using assms(1) nosign
    by (auto simp add: Atoi_def ParseInt_def ParseUint_def Let_def
          split: prod.splits option.splits error.splits sum.splits num_err.splits if_splits)
qed




lemma Atoi_0: "Atoi ''0'' = (0, None)"
  using Atoi_itoa [of 0] by (simp add: itoa_eval)

lemma Atoi_1: "Atoi ''1'' = (1, None)"
  using Atoi_itoa [of 1] by (simp add: itoa_eval)

lemma Atoi_24: "Atoi ''24'' = (24, None)"
  using Atoi_itoa [of 24] by (simp add: itoa_eval)

lemma Atoi_80: "Atoi ''80'' = (80, None)"
  using Atoi_itoa [of 80] by (simp add: itoa_eval)

lemma Atoi_overflow:
  "Atoi ''99999999999999999999'' = (9223372036854775807, Some (NumError ''Atoi'' ''99999999999999999999'' ErrRange))"
  by (simp add: Atoi_def ParseInt_def ParseUint_def is_digit_def digit_val_def maxUint64_def)

lemma Atoi_not_number: "Atoi ''wide'' = (0, Some (NumError ''Atoi'' ''wide'' ErrSyntax))"
  by (simp add: Atoi_def ParseInt_def ParseUint_def is_digit_def)

subsection \<open>SplitN and Split\<close>

lemma SplitN_two:
  "SplitN s c 2 =
     (if c \<in> set s then [takeWhile (\<lambda>x. x \<noteq> c) s, tl (dropWhile (\<lambda>x. x \<noteq> c) s)] else [s])"
  by (simp add: numeral_2_eq_2)

lemma Split_single: "c \<notin> set s \<Longrightarrow> Split s c = [s]"
  by (simp add: Split_def count_list_0_iff)

lemma Split_line:
  assumes "c \<notin> set a"
  shows "Split (a @ c # rest) c = a # Split rest c"
proof -
  have p: "\<And>x. x \<in> set a \<Longrightarrow> x \<noteq> c" using assms by auto
  have n: "count_list (a @ c # rest) c = Suc (count_list rest c)"
    using assms by (simp add: count_list_0_iff)
  have t: "takeWhile (\<lambda>x. x \<noteq> c) (a @ c # rest) = a"
    using p by (simp add: takeWhile_tail)
  have d: "dropWhile (\<lambda>x. x \<noteq> c) (a @ c # rest) = c # rest"
    using p by (simp add: dropWhile_append2)
  show ?thesis
    unfolding Split_def n by (simp add: t d)
qed

lemma Split_two_lines:
  "NL \<notin> set a \<Longrightarrow> NL \<notin> set b \<Longrightarrow> Split (a @ NL # b) NL = [a, b]"
  by (simp add: Split_line Split_single)


subsection \<open>The matcher\<close>

lemma longest_first_SomeD:
  "longest_first f k = Some y \<Longrightarrow> \<exists>n. 1 \<le> n \<and> n \<le> k \<and> f n = Some y"
proof (induction k)
  case 0
  then show ?case by simp
next
  case (Suc k)
  show ?case
  proof (cases "f (Suc k)")
    case None
    with Suc.prems have "longest_first f k = Some y" by simp
    from Suc.IH [OF this] show ?thesis by (metis le_Suc_eq)
  next
    case (Some z)
    with Suc.prems have "f (Suc k) = Some y" by simp
    then show ?thesis by (intro exI [of _ "Suc k"]) simp
  qed
qed

lemma longest_first_None:
  "(\<And>n. 1 \<le> n \<Longrightarrow> n \<le> k \<Longrightarrow> f n = None) \<Longrightarrow> longest_first f k = None"
  by (induction k) auto



lemma match_here_captures:
  "match_here r s = Some (cs, t) \<Longrightarrow> length cs = length (filter is_capture r)"
proof (induction r s arbitrary: cs t rule: match_here.induct)
  case (1 s)
  then show ?case by simp
next
  case (2 c r s)
  then show ?case by (auto split: list.splits if_splits)
next
  case (3 k r s)
  then show ?case by (auto split: list.splits if_splits)
next
  case (4 k r s)
  from "4.prems" obtain n where
    "map_option (\<lambda>(cs, t). (take n s # cs, t)) (match_here r (drop n s)) = Some (cs, t)"
    by (auto dest: longest_first_SomeD)
  then obtain cs' where "match_here r (drop n s) = Some (cs', t)" and "cs = take n s # cs'"
    by auto
  with "4.IH" show ?case by auto
qed


lemma take_within_takeWhile:
  assumes "1 \<le> n" and "n \<le> length (takeWhile P s)"
  shows "take n s \<noteq> [] \<and> (\<forall>x\<in>set (take n s). P x)"
proof -
  have "take n s = take n (takeWhile P s @ dropWhile P s)" by simp
  also have "\<dots> = take n (takeWhile P s)" using assms(2) by (simp del: takeWhile_dropWhile_id)
  finally have eq: "take n s = take n (takeWhile P s)" .
  have "takeWhile P s \<noteq> []" using assms by auto
  then have "take n (takeWhile P s) \<noteq> []" using assms(1) by (cases n) auto
  moreover have "\<forall>x\<in>set (take n (takeWhile P s)). P x"
    by (meson in_set_takeD set_takeWhileD)
  ultimately show ?thesis unfolding eq by blast
qed

lemma match_here_classes:
  "match_here r s = Some (cs, t) \<Longrightarrow> list_all2 capture_ok (filter is_capture r) cs"
proof (induction r s arbitrary: cs t rule: match_here.induct)
  case (1 s)
  then show ?case by simp
next
  case (2 c r s)
  then show ?case by (auto split: list.splits if_splits)
next
  case (3 k r s)
  then show ?case by (auto split: list.splits if_splits)
next
  case (4 k r s)
  from "4.prems" obtain n where n: "1 \<le> n" "n \<le> length (takeWhile (cls_ok k) s)"
    and "map_option (\<lambda>(cs, t). (take n s # cs, t)) (match_here r (drop n s)) = Some (cs, t)"
    by (auto dest: longest_first_SomeD)
  then obtain cs' where m: "match_here r (drop n s) = Some (cs', t)" and c: "cs = take n s # cs'"
    by auto
  from "4.IH" [OF m] have "list_all2 capture_ok (filter is_capture r) cs'" .
  with take_within_takeWhile [OF n] c show ?case by simp
qed



lemma find_leftmost_length:
  "find_leftmost r s = Some res \<Longrightarrow> length res = Suc (length (filter is_capture r))"
  by (induction s) (auto split: option.splits dest: match_here_captures)

lemma find_leftmost_no_start:
  "c \<notin> set s \<Longrightarrow> find_leftmost (Lit c # r) s = None"
  by (induction s) auto


lemma find_leftmost_classes:
  "find_leftmost r s = Some res \<Longrightarrow> list_all2 capture_ok (filter is_capture r) (tl res)"
  by (induction s) (auto split: option.splits dest: match_here_classes)

lemma repetition_then_literal_fails:
  assumes "c \<notin> set sid" and "sid = [] \<or> (\<exists>x\<in>set sid. \<not> cls_ok k x)" and "\<not> cls_ok k c"
  shows "match_here (CapPlus k # Lit c # r) (sid @ c # rest) = None"
proof -
  have "map_option (\<lambda>(cs, t). (take n (sid @ c # rest) # cs, t))
          (match_here (Lit c # r) (drop n (sid @ c # rest))) = None"
    if n: "1 \<le> n" "n \<le> length (takeWhile (cls_ok k) (sid @ c # rest))" for n
  proof (cases "sid = []")
    case True
    with n assms(3) show ?thesis by simp
  next
    case False
    with assms(2) obtain x where x: "x \<in> set sid" "\<not> cls_ok k x" by blast
    then have tw: "takeWhile (cls_ok k) (sid @ c # rest) = takeWhile (cls_ok k) sid"
      by (simp add: takeWhile_append1)
    have "takeWhile (cls_ok k) sid \<noteq> sid"
      using x by (auto simp add: takeWhile_eq_all_conv)
    moreover have "length (takeWhile (cls_ok k) sid) \<le> length sid"
      by (rule length_takeWhile_le)
    moreover have "length (takeWhile (cls_ok k) sid) = length sid \<Longrightarrow> takeWhile (cls_ok k) sid = sid"
      by (metis append_eq_conv_conj takeWhile_dropWhile_id take_all order_refl)
    ultimately have "length (takeWhile (cls_ok k) sid) < length sid"
      by (cases "length (takeWhile (cls_ok k) sid) = length sid") auto
    with n tw have lt: "n < length sid" by simp
    then have "drop n (sid @ c # rest) = (sid ! n) # drop (Suc n) sid @ c # rest"
      by (simp add: Cons_nth_drop_Suc)
    moreover have "sid ! n \<noteq> c" using lt assms(1) by (metis nth_mem)
    ultimately show ?thesis by simp
  qed
  then show ?thesis
    by (simp add: longest_first_None)
qed



section \<open>ListPanes\<close>

subsection \<open>The pattern of pane.go\<close>

lemma FindStringSubmatch_pane_re_length:
  "FindStringSubmatch pane_re l = [] \<or> length (FindStringSubmatch pane_re l) = 8"
proof (cases "find_leftmost pane_re l")
  case None
  then show ?thesis by (simp add: FindStringSubmatch_def)
next
  case (Some res)
  from find_leftmost_length [OF this] show ?thesis using Some
    by (simp add: FindStringSubmatch_def pane_re_def)
qed


lemma pane_submatch_numbers:
  assumes "FindStringSubmatch pane_re l \<noteq> []"
  shows "\<forall>i\<in>{1, 3, 5, 6}. FindStringSubmatch pane_re l ! i \<noteq> [] \<and>
           (\<forall>x\<in>set (FindStringSubmatch pane_re l ! i). is_digit x)"
proof -
  from assms obtain res where f: "find_leftmost pane_re l = Some res"
    and r: "FindStringSubmatch pane_re l = res"
    by (auto simp add: FindStringSubmatch_def split: option.splits)
  from find_leftmost_classes [OF f]
  have "list_all2 capture_ok
          [CapPlus Digit, CapPlus AnyChar, CapPlus Digit, CapPlus AnyChar, CapPlus Digit,
           CapPlus Digit, CapOne Bit] (tl res)"
    by (simp add: pane_re_def)
  then obtain sid sn wid wn wi pid fl where
    "tl res = [sid, sn, wid, wn, wi, pid, fl]" "capture_ok (CapPlus Digit) sid"
    "capture_ok (CapPlus Digit) wid" "capture_ok (CapPlus Digit) wi"
    "capture_ok (CapPlus Digit) pid"
    by (auto simp add: list_all2_Cons1)
  moreover from assms r obtain m where "res = m # tl res" by (cases res) auto
  ultimately have "res = [m, sid, sn, wid, wn, wi, pid, fl]" by simp
  with \<open>capture_ok (CapPlus Digit) sid\<close> \<open>capture_ok (CapPlus Digit) wid\<close>
    \<open>capture_ok (CapPlus Digit) wi\<close> \<open>capture_ok (CapPlus Digit) pid\<close>
  show ?thesis unfolding r by simp
qed

lemma numeric_failure_is_range:
  assumes "FindStringSubmatch pane_re l \<noteq> []"
    and "numeric_failure (FindStringSubmatch pane_re l) = Some e"
  shows "\<exists>num. e = NumError ''Atoi'' num ErrRange"
proof -
  let ?r = "FindStringSubmatch pane_re l"
  have d: "\<And>i. i \<in> {1, 3, 5, 6} \<Longrightarrow>
             snd (Atoi (?r ! i)) = None \<or>
             Atoi (?r ! i) = (2 ^ 63 - 1, Some (NumError ''Atoi'' (?r ! i) ErrRange))"
    using pane_submatch_numbers [OF assms(1)] by (intro Atoi_digits) blast+
  from assms(2) obtain i where "i \<in> {1, 3, 5, 6}" and "snd (Atoi (?r ! i)) = Some e"
    unfolding numeric_failure_def by (auto split: option.splits)
  with d [of i] show ?thesis by auto
qed

lemma nonnumeric_session_no_match:
  assumes "CHR '':'' \<notin> set sid" and "sid = [] \<or> (\<exists>c\<in>set sid. \<not> is_digit c)"
    and "CHR ''$'' \<notin> set (sid @ rest)"
  shows "FindStringSubmatch pane_re (CHR ''$'' # sid @ CHR '':'' # rest) = []"
proof -
  have "\<not> cls_ok Digit (CHR '':'')" by (simp add: is_digit_def)
  with assms(1,2) have
    "match_here (CapPlus Digit # Lit (CHR '':'') # tl (tl (tl pane_re))) (sid @ CHR '':'' # rest) = None"
    by (intro repetition_then_literal_fails) auto
  then have here: "match_here pane_re (CHR ''$'' # sid @ CHR '':'' # rest) = None"
    by (simp add: pane_re_def)
  have "find_leftmost (Lit (CHR ''$'') # tl pane_re) (sid @ CHR '':'' # rest) = None"
    using assms(3) by (intro find_leftmost_no_start) auto
  then have "find_leftmost pane_re (sid @ CHR '':'' # rest) = None"
    by (simp add: pane_re_def)
  with here show ?thesis
    by (simp add: FindStringSubmatch_def)
qed




lemma submatch_first_pane_line:
  "FindStringSubmatch pane_re first_pane_line =
     [''$1:main:@1:shell:0:%0:1'', ''1'', ''main'', ''1'', ''shell'', ''0'', ''0'', ''1'']"
  by (simp add: FindStringSubmatch_def pane_re_def first_pane_line_def is_digit_def)


lemma submatch_overflow_line:
  "FindStringSubmatch pane_re overflow_line =
     [''$99999999999999999999:main:@1:shell:0:%1:0'', ''99999999999999999999'', ''main'', ''1'',
      ''shell'', ''0'', ''1'', ''0'']"
  by (simp add: FindStringSubmatch_def pane_re_def overflow_line_def is_digit_def)

lemma submatch_bad_session_line: "FindStringSubmatch pane_re bad_session_line = []"
  using nonnumeric_session_no_match [of "''x''" "''main:@1:shell:0:%0:1''"]
  by (simp add: bad_session_line_def is_digit_def)



subsection \<open>The loop over the lines\<close>

lemma parse_lines_step:
  "parse_lines (l # rest) acc =
     (if FindStringSubmatch pane_re l = [] then parse_lines rest acc
      else case numeric_failure (FindStringSubmatch pane_re l) of
             Some e \<Rightarrow> ([], Some e)
           | None \<Rightarrow> parse_lines rest (acc @ [pane_of_submatch (FindStringSubmatch pane_re l)]))"
  using FindStringSubmatch_pane_re_length [of l]
  by (auto simp add: paneParts_def numeric_failure_def pane_of_submatch_def Let_def
        split: prod.splits option.splits)

lemma parse_lines_skip:
  "FindStringSubmatch pane_re l = [] \<Longrightarrow>
     parse_lines (pre @ l # post) acc = parse_lines (pre @ post) acc"
  by (induction pre arbitrary: acc)
     (simp_all add: parse_lines_step del: parse_lines.simps(2) split: option.splits)

lemma parse_lines_abort:
  assumes "FindStringSubmatch pane_re l \<noteq> []"
    and "numeric_failure (FindStringSubmatch pane_re l) = Some e"
  shows "parse_lines pre acc = (ps, None) \<Longrightarrow> parse_lines (pre @ l # post) acc = ([], Some e)"
  using assms
  by (induction pre arbitrary: acc)
     (auto simp add: parse_lines_step simp del: parse_lines.simps(2) split: option.splits if_splits)


lemma ListPanes_success:
  assumes "rn (calls w) ([''list-panes'', ''-F'', list_format] @ args) = (out, stdErr, None)"
  shows "fst (ListPanes args rn w) = parse_lines (Split out NL) []"
  using assms by (simp add: ListPanes_def RunCmd_def Let_def)

lemma parse_first_pane_line:
  "parse_lines [first_pane_line] [] =
     ([\<lparr>ID = 0, SessionId = 1, SessionName = ''main'', WindowId = 1, WindowName = ''shell'',
        WindowIndex = 0, Active = True\<rparr>], None)"
  by (simp add: parse_lines_step submatch_first_pane_line numeric_failure_def pane_of_submatch_def
        Atoi_1 Atoi_0 del: parse_lines.simps(2))

lemma numeric_failure_overflow_line:
  "numeric_failure (FindStringSubmatch pane_re overflow_line) =
     Some (NumError ''Atoi'' ''99999999999999999999'' ErrRange)"
  by (simp add: submatch_overflow_line numeric_failure_def Atoi_overflow)


lemma demo_heap [simp]: "heap demo_world 0 = Some demo_pane" "heap demo_world (Suc 0) = Some demo_dest"
  "calls demo_world = []"
  by (simp_all add: demo_world_def)

subsection \<open>Lines that are skipped and lines that fail\<close>

text \<open>
  Claim C1, as stated, fails: the line \<open>$x:main:@1:shell:0:%0:1\<close> is not matched by the
  pattern, so it is skipped and \<open>ListPanes\<close> returns no panes and a nil error.
\<close>

theorem ListPanes_nonnumeric_session_counterexample:
  "fst (ListPanes [] (ok_runner ''$x:main:@1:shell:0:%0:1'') demo_world) = ([], None)"
proof -
  have "Split ''$x:main:@1:shell:0:%0:1'' NL = [bad_session_line]"
    by (simp add: Split_single bad_session_line_def)
  then show ?thesis
    using ListPanes_success [of "ok_runner ''$x:main:@1:shell:0:%0:1''" demo_world "[]"
            "''$x:main:@1:shell:0:%0:1''" "[]"]
    by (simp add: ok_runner_def parse_lines_step submatch_bad_session_line del: parse_lines.simps(2))
qed

text \<open>
  Claim C1, amended. When the runner succeeds: a line \<open>$sid:rest\<close> whose session-id field
  \<open>sid\<close> is empty or has a character that is no digit, and that has no second \<open>$\<close>, is not
  matched and is skipped, so the call returns what it returns without that line; and a
  structurally matched line with a failing \<open>Atoi\<close>, coming after lines that gave panes
  without error, makes the call return no panes and that error. Such an error is always a
  range error: the numeric groups of a matched line are non-empty runs of digits.
\<close>

theorem ListPanes_skip_or_abort:
  assumes "rn (calls w) ([''list-panes'', ''-F'', list_format] @ args) = (out, stdErr, None)"
  shows "(\<forall>pre sid rest post.
            Split out NL = pre @ (CHR ''$'' # sid @ CHR '':'' # rest) # post \<and>
            CHR '':'' \<notin> set sid \<and> (sid = [] \<or> (\<exists>c\<in>set sid. \<not> is_digit c)) \<and>
            CHR ''$'' \<notin> set (sid @ rest)
            \<longrightarrow> fst (ListPanes args rn w) = parse_lines (pre @ post) []) \<and>
         (\<forall>pre l post ps e.
            Split out NL = pre @ l # post \<and> parse_lines pre [] = (ps, None) \<and>
            FindStringSubmatch pane_re l \<noteq> [] \<and>
            numeric_failure (FindStringSubmatch pane_re l) = Some e
            \<longrightarrow> fst (ListPanes args rn w) = ([], Some e)) \<and>
         (\<forall>l e.
            FindStringSubmatch pane_re l \<noteq> [] \<and>
            numeric_failure (FindStringSubmatch pane_re l) = Some e
            \<longrightarrow> (\<exists>num. e = NumError ''Atoi'' num ErrRange))"
proof (intro conjI allI impI)
  fix l e
  assume "FindStringSubmatch pane_re l \<noteq> [] \<and>
          numeric_failure (FindStringSubmatch pane_re l) = Some e"
  then show "\<exists>num. e = NumError ''Atoi'' num ErrRange"
    using numeric_failure_is_range by blast
next
  fix pre sid rest post
  assume a: "Split out NL = pre @ (CHR ''$'' # sid @ CHR '':'' # rest) # post \<and>
            CHR '':'' \<notin> set sid \<and> (sid = [] \<or> (\<exists>c\<in>set sid. \<not> is_digit c)) \<and>
            CHR ''$'' \<notin> set (sid @ rest)"
  then have "FindStringSubmatch pane_re (CHR ''$'' # sid @ CHR '':'' # rest) = []"
    by (intro nonnumeric_session_no_match) auto
  then show "fst (ListPanes args rn w) = parse_lines (pre @ post) []"
    using a ListPanes_success [of rn w args out stdErr] assms by (simp add: parse_lines_skip)
next
  fix pre l post ps e
  assume a: "Split out NL = pre @ l # post \<and> parse_lines pre [] = (ps, None) \<and>
            FindStringSubmatch pane_re l \<noteq> [] \<and>
            numeric_failure (FindStringSubmatch pane_re l) = Some e"
  then have "parse_lines (pre @ l # post) [] = ([], Some e)"
    by (intro parse_lines_abort [where ps = ps]) auto
  then show "fst (ListPanes args rn w) = ([], Some e)"
    using a ListPanes_success [of rn w args out stdErr] assms by simp
qed

theorem ListPanes_skip_or_abort_witness:
  "fst (ListPanes [] (ok_runner (first_pane_line @ NL # bad_session_line)) demo_world) =
     parse_lines [first_pane_line] [] \<and>
   parse_lines [first_pane_line] [] =
     ([\<lparr>ID = 0, SessionId = 1, SessionName = ''main'', WindowId = 1, WindowName = ''shell'',
        WindowIndex = 0, Active = True\<rparr>], None) \<and>
   fst (ListPanes [] (ok_runner (first_pane_line @ NL # overflow_line)) demo_world) =
     ([], Some (NumError ''Atoi'' ''99999999999999999999'' ErrRange))"
proof -
  have s1: "Split (first_pane_line @ NL # bad_session_line) NL = [first_pane_line, bad_session_line]"
    by (rule Split_two_lines) (simp_all add: first_pane_line_def bad_session_line_def)
  have s2: "Split (first_pane_line @ NL # overflow_line) NL = [first_pane_line, overflow_line]"
    by (rule Split_two_lines) (simp_all add: first_pane_line_def overflow_line_def)
  have b: "bad_session_line = CHR ''$'' # ''x'' @ CHR '':'' # ''main:@1:shell:0:%0:1''"
    by (simp add: bad_session_line_def)
  have r1: "ok_runner (first_pane_line @ NL # bad_session_line) (calls demo_world)
              ([''list-panes'', ''-F'', list_format] @ []) =
            (first_pane_line @ NL # bad_session_line, [], None)"
    by (simp add: ok_runner_def)
  have r2: "ok_runner (first_pane_line @ NL # overflow_line) (calls demo_world)
              ([''list-panes'', ''-F'', list_format] @ []) =
            (first_pane_line @ NL # overflow_line, [], None)"
    by (simp add: ok_runner_def)
  have skip: "Split (first_pane_line @ NL # bad_session_line) NL =
                pre @ (CHR ''$'' # sid @ CHR '':'' # rest) # post \<and>
              CHR '':'' \<notin> set sid \<and> (sid = [] \<or> (\<exists>c\<in>set sid. \<not> is_digit c)) \<and>
              CHR ''$'' \<notin> set (sid @ rest) \<Longrightarrow>
              fst (ListPanes [] (ok_runner (first_pane_line @ NL # bad_session_line)) demo_world) =
                parse_lines (pre @ post) []" for pre sid rest post
    using ListPanes_skip_or_abort [of "ok_runner (first_pane_line @ NL # bad_session_line)"
            demo_world "[]" "first_pane_line @ NL # bad_session_line" "[]"] r1
    by blast
  have abort: "Split (first_pane_line @ NL # overflow_line) NL = pre @ l # post \<and>
               parse_lines pre [] = (ps, None) \<and> FindStringSubmatch pane_re l \<noteq> [] \<and>
               numeric_failure (FindStringSubmatch pane_re l) = Some e \<Longrightarrow>
               fst (ListPanes [] (ok_runner (first_pane_line @ NL # overflow_line)) demo_world) =
                 ([], Some e)" for pre l post ps e
    using ListPanes_skip_or_abort [of "ok_runner (first_pane_line @ NL # overflow_line)"
            demo_world "[]" "first_pane_line @ NL # overflow_line" "[]"] r2
    by blast
  have "fst (ListPanes [] (ok_runner (first_pane_line @ NL # bad_session_line)) demo_world) =
          parse_lines ([first_pane_line] @ []) []"
    using s1
    by (intro skip [of "[first_pane_line]" "''x''" "''main:@1:shell:0:%0:1''" "[]"])
       (simp add: bad_session_line_def is_digit_def)
  moreover have "fst (ListPanes [] (ok_runner (first_pane_line @ NL # overflow_line)) demo_world) =
          ([], Some (NumError ''Atoi'' ''99999999999999999999'' ErrRange))"
    using numeric_failure_overflow_line
    by (intro abort [of "[first_pane_line]" overflow_line "[]"
                "[\<lparr>ID = 0, SessionId = 1, SessionName = ''main'', WindowId = 1,
                   WindowName = ''shell'', WindowIndex = 0, Active = True\<rparr>]"])
       (simp add: s2 parse_first_pane_line submatch_overflow_line del: parse_lines.simps(2))
  ultimately show ?thesis using parse_first_pane_line by simp
qed

subsection \<open>Lines that decode\<close>



section \<open>MovePane\<close>

lemma heap_store: "heap (store a f w) = (heap w)(a := map_option f (heap w a))"
  by (simp add: store_def)

lemma calls_store: "calls (store a f w) = calls w"
  by (simp add: store_def)

text \<open>
  Claim C3. For panes \<open>p\<close> and \<open>t\<close> in the heap (they may be the same cell),
  \<open>MovePane\<close> returns the runner's error, whatever it is, and afterwards \<open>p\<close> has the
  \<open>WindowName\<close> and \<open>WindowId\<close> of \<open>t\<close>, its \<open>ID\<close>, \<open>SessionId\<close>, \<open>SessionName\<close>,
  \<open>WindowIndex\<close> and \<open>Active\<close> are as before, \<open>t\<close> holds what it held, and no other cell
  has changed.
\<close>

theorem MovePane_frame:
  assumes "heap w p = Some pn" and "heap w t = Some tn"
  shows "\<exists>w' pn'.
           MovePane p t focus rn w =
             (Return (snd (snd (rn (calls w)
                ([''join-pane'', ''-s'', pane_target pn, ''-t'', window_target tn] @
                 (if focus then [] else [''-d'']))))), w') \<and>
           heap w' p = Some pn' \<and>
           WindowName pn' = WindowName tn \<and> WindowId pn' = WindowId tn \<and>
           ID pn' = ID pn \<and> SessionId pn' = SessionId pn \<and>
           SessionName pn' = SessionName pn \<and> WindowIndex pn' = WindowIndex pn \<and>
           Active pn' = Active pn \<and>
           heap w' t = Some tn \<and>
           (\<forall>a. a \<noteq> p \<longrightarrow> heap w' a = heap w a)"
  using assms
  by (cases "t = p") (auto simp add: MovePane_def RunCmd_def Let_def split_beta heap_store)

theorem MovePane_frame_witness:
  "\<exists>w' pn'.
     MovePane 0 1 False (failing_runner ''can't find window'') demo_world =
       (Return (Some (RunnerError ''exit status 1'')), w') \<and>
     heap w' 0 = Some pn' \<and>
     WindowName pn' = ''logs'' \<and> WindowId pn' = 5 \<and>
     ID pn' = 1 \<and> SessionId pn' = 0 \<and> SessionName pn' = ''main'' \<and> WindowIndex pn' = 0 \<and>
     Active pn' \<and> heap w' 1 = Some demo_dest"
  using MovePane_frame [of demo_world 0 demo_pane 1 demo_dest False "failing_runner ''can't find window''"]
  by (auto simp add: failing_runner_def demo_pane_def demo_dest_def)

section \<open>SetFocus\<close>

text \<open>
  Claim C4. For a pane in the heap, \<open>SetFocus\<close> makes exactly two runner invocations, in
  this order: \<open>select-window -t SessionName:WindowId\<close> and then
  \<open>select-pane -t SessionName:WindowId.ID\<close>. The second is made whatever the first
  answered, and the error returned is the error of the second invocation.
\<close>

theorem SetFocus_two_commands:
  assumes "heap w p = Some pn"
  shows "SetFocus p rn w =
           (Return (snd (snd (rn (calls w @ [[''select-window'', ''-t'',
                                  SessionName pn @ '':'' @ itoa (WindowId pn)]])
                        [''select-pane'', ''-t'',
                         SessionName pn @ '':'' @ itoa (WindowId pn) @ ''.'' @ itoa (ID pn)]))),
            w\<lparr>calls := calls w @
                 [[''select-window'', ''-t'', SessionName pn @ '':'' @ itoa (WindowId pn)],
                  [''select-pane'', ''-t'',
                   SessionName pn @ '':'' @ itoa (WindowId pn) @ ''.'' @ itoa (ID pn)]]\<rparr>)"
  using assms
  by (simp add: SetFocus_def RunCmd_def window_target_eq pane_target_eq Let_def split_beta)

theorem SetFocus_two_commands_witness:
  "SetFocus 0 first_fails_runner demo_world =
     (Return None,
      demo_world\<lparr>calls := [[''select-window'', ''-t'', ''main:2''],
                            [''select-pane'', ''-t'', ''main:2.1'']]\<rparr>)"
  using SetFocus_two_commands [of demo_world 0 demo_pane first_fails_runner]
  by (simp add: demo_pane_def first_fails_runner_def itoa_eval)

section \<open>GetCurrentSize\<close>

lemma GetCurrentSize_success:
  assumes "heap w p = Some pn"
    and "rn (calls w) [''display-message'', ''-p'', ''-t'', pane_target pn, ''-F'',
                        ''#{pane_width}x#{pane_height}''] = (out, stdErr, None)"
  shows "fst (GetCurrentSize p rn w) =
           (if out = [] then Panic SliceBoundsOutOfRange
            else if CHR ''x'' \<notin> set (butlast out) then Panic IndexOutOfRange
            else Return (fst (Atoi (takeWhile (\<lambda>c. c \<noteq> CHR ''x'') (butlast out))),
                         fst (Atoi (tl (dropWhile (\<lambda>c. c \<noteq> CHR ''x'') (butlast out)))),
                         None))"
  using assms
  by (simp add: GetCurrentSize_def RunCmd_def Let_def split_beta SplitN_two butlast_conv_take)

text \<open>
  Claim C5, as stated, fails: the width \<open>99999999999999999999\<close> does not parse, no error is
  returned, and the width returned is the largest 64-bit integer, not 0.
\<close>

theorem GetCurrentSize_overflow_counterexample:
  "snd (Atoi ''99999999999999999999'') \<noteq> None \<and>
   fst (GetCurrentSize 0 (ok_runner (''99999999999999999999x24'' @ [NL])) demo_world)
     = Return (9223372036854775807, 24, None)"
  using GetCurrentSize_success [of demo_world 0 demo_pane
          "ok_runner (''99999999999999999999x24'' @ [NL])" "''99999999999999999999x24'' @ [NL]" "[]"]
  by (simp add: ok_runner_def Atoi_overflow Atoi_24)

text \<open>
  Claim C5, amended. When the runner succeeds with stdout \<open>body\<close> followed by a line
  terminator and \<open>body\<close> contains an \<open>x\<close>, \<open>GetCurrentSize\<close> returns no error and the two
  values \<open>Atoi\<close> gives for the text before and after the first \<open>x\<close>: the number itself for a
  decimal integer in the 64-bit range, 0 after a syntax failure, and the largest or
  smallest 64-bit integer after a range failure.
\<close>

theorem GetCurrentSize_parsed:
  assumes "heap w p = Some pn"
    and "rn (calls w) [''display-message'', ''-p'', ''-t'', pane_target pn, ''-F'',
                        ''#{pane_width}x#{pane_height}''] = (body @ [NL], stdErr, None)"
    and "CHR ''x'' \<in> set body"
  shows "fst (GetCurrentSize p rn w) =
           Return (fst (Atoi (takeWhile (\<lambda>c. c \<noteq> CHR ''x'') body)),
                   fst (Atoi (tl (dropWhile (\<lambda>c. c \<noteq> CHR ''x'') body))), None) \<and>
         (\<forall>i. - (2 ^ 63) \<le> i \<and> i < 2 ^ 63 \<longrightarrow> Atoi (itoa i) = (i, None)) \<and>
         (\<forall>s. snd (Atoi s) = None \<or>
              Atoi s = (0, Some (NumError ''Atoi'' s ErrSyntax)) \<or>
              Atoi s = (2 ^ 63 - 1, Some (NumError ''Atoi'' s ErrRange)) \<or>
              Atoi s = (- (2 ^ 63), Some (NumError ''Atoi'' s ErrRange)))"
  using GetCurrentSize_success [of w p pn rn "body @ [NL]" stdErr] assms Atoi_itoa Atoi_outcomes
  by simp

theorem GetCurrentSize_parsed_witness:
  "fst (GetCurrentSize 0 (ok_runner (''80x24'' @ [NL])) demo_world) = Return (80, 24, None) \<and>
   fst (GetCurrentSize 0 (ok_runner (''widex24'' @ [NL])) demo_world) = Return (0, 24, None)"
  using GetCurrentSize_parsed [of demo_world 0 demo_pane "ok_runner (''80x24'' @ [NL])" "''80x24''" "[]"]
        GetCurrentSize_parsed [of demo_world 0 demo_pane "ok_runner (''widex24'' @ [NL])" "''widex24''" "[]"]
  by (simp add: ok_runner_def Atoi_80 Atoi_24 Atoi_not_number)

text \<open>
  Claim C9. When the runner succeeds, \<open>GetCurrentSize\<close> panics exactly when stdout is empty
  (the slice \<open>out[:len(out)-1]\<close> is out of bounds) or stdout without its last byte has no
  \<open>x\<close> (the index \<open>data[1]\<close> is out of range); no error is returned in either case.
\<close>

theorem GetCurrentSize_partial:
  assumes "heap w p = Some pn"
    and "rn (calls w) [''display-message'', ''-p'', ''-t'', pane_target pn, ''-F'',
                        ''#{pane_width}x#{pane_height}''] = (out, stdErr, None)"
  shows "(out = [] \<longrightarrow> fst (GetCurrentSize p rn w) = Panic SliceBoundsOutOfRange) \<and>
         (out \<noteq> [] \<and> CHR ''x'' \<notin> set (butlast out) \<longrightarrow>
            fst (GetCurrentSize p rn w) = Panic IndexOutOfRange) \<and>
         ((\<exists>k. fst (GetCurrentSize p rn w) = Panic k) \<longleftrightarrow>
            (out = [] \<or> CHR ''x'' \<notin> set (butlast out)))"
  using GetCurrentSize_success [of w p pn rn out stdErr] assms by auto

theorem GetCurrentSize_partial_witness:
  "fst (GetCurrentSize 0 (ok_runner []) demo_world) = Panic SliceBoundsOutOfRange \<and>
   fst (GetCurrentSize 0 (ok_runner (''8024'' @ [NL])) demo_world) = Panic IndexOutOfRange \<and>
   \<not> (\<exists>k. fst (GetCurrentSize 0 (ok_runner (''80x24'' @ [NL])) demo_world) = Panic k)"
  using GetCurrentSize_partial [of demo_world 0 demo_pane "ok_runner []" "[]" "[]"]
        GetCurrentSize_partial [of demo_world 0 demo_pane "ok_runner (''8024'' @ [NL])"
          "''8024'' @ [NL]" "[]"]
        GetCurrentSize_partial [of demo_world 0 demo_pane "ok_runner (''80x24'' @ [NL])"
          "''80x24'' @ [NL]" "[]"]
  by (simp add: ok_runner_def)

section \<open>GetCurrentPath\<close>

lemma GetCurrentPath_terminated_output:
  "rn (calls w) [''display-message'', ''-P'', ''-F'', ''#{pane_current_path}'']
     = (body @ [NL], stdErr, None) \<Longrightarrow>
   fst (GetCurrentPath p rn w) = Return (body, None)"
  by (simp add: GetCurrentPath_def RunCmd_def)

lemma GetCurrentPath_runner_failure:
  "rn (calls w) [''display-message'', ''-P'', ''-F'', ''#{pane_current_path}'']
     = (out, stdErr, Some e) \<Longrightarrow>
   fst (GetCurrentPath p rn w) = Return ([], Some e)"
  by (simp add: GetCurrentPath_def RunCmd_def)

text \<open>
  Claim C6. \<open>GetCurrentPath\<close> evaluated where the claim fails: the runner succeeds with
  empty stdout and the call panics; the runner succeeds with stdout that has no line
  terminator and the last character of the path is lost.
\<close>

theorem GetCurrentPath_strip_defect:
  "fst (GetCurrentPath 0 (ok_runner []) demo_world) = Panic SliceBoundsOutOfRange \<and>
   fst (GetCurrentPath 0 (ok_runner ''/home/user'') demo_world) = Return (''/home/use'', None)"
  by (simp add: GetCurrentPath_def RunCmd_def ok_runner_def)

text \<open>
  Claim C10. When the runner succeeds, \<open>GetCurrentPath\<close> panics with a slice-bounds
  violation on empty stdout and on nothing else; on non-empty stdout it returns stdout
  without its last byte, whatever that byte is, so output without a line terminator
  loses its last character.
\<close>

theorem GetCurrentPath_partial:
  assumes "rn (calls w) [''display-message'', ''-P'', ''-F'', ''#{pane_current_path}'']
             = (out, stdErr, None)"
  shows "(out = [] \<longrightarrow> fst (GetCurrentPath p rn w) = Panic SliceBoundsOutOfRange) \<and>
         (out \<noteq> [] \<longrightarrow> fst (GetCurrentPath p rn w) = Return (butlast out, None)) \<and>
         ((\<exists>k. fst (GetCurrentPath p rn w) = Panic k) \<longleftrightarrow> out = [])"
  using assms
  by (auto simp add: GetCurrentPath_def RunCmd_def butlast_conv_take Let_def split: if_splits)

theorem GetCurrentPath_partial_witness:
  "fst (GetCurrentPath 0 (ok_runner []) demo_world) = Panic SliceBoundsOutOfRange \<and>
   fst (GetCurrentPath 0 (ok_runner ''/home/user'') demo_world) = Return (''/home/use'', None)"
  using GetCurrentPath_partial [of "ok_runner []" demo_world "[]" "[]" 0]
        GetCurrentPath_partial [of "ok_runner ''/home/user''" demo_world "''/home/user''" "[]" 0]
  by (simp add: ok_runner_def)

section \<open>Capture\<close>

text \<open>
  Claim C7. For a pane in the heap, when the runner fails \<open>Capture\<close> returns the runner's
  standard-error text together with the runner's error; when the runner succeeds it
  returns the runner's stdout unchanged, the trailing line terminator included, and no
  error.
\<close>

theorem Capture_result:
  assumes "heap w p = Some pn"
  shows "(rn (calls w) [''capture-pane'', ''-t'', pane_target pn, ''-p''] = (out, stdErr, Some e)
            \<longrightarrow> fst (Capture p rn w) = Return (stdErr, Some e)) \<and>
         (rn (calls w) [''capture-pane'', ''-t'', pane_target pn, ''-p''] = (out, stdErr, None)
            \<longrightarrow> fst (Capture p rn w) = Return (out, None))"
  using assms by (simp add: Capture_def RunCmd_def)

theorem Capture_result_witness:
  "fst (Capture 0 (failing_runner ''can't find pane'') demo_world)
     = Return (''can't find pane'', Some (RunnerError ''exit status 1'')) \<and>
   fst (Capture 0 (ok_runner (''$ ls'' @ [NL])) demo_world) = Return (''$ ls'' @ [NL], None)"
  using Capture_result [of demo_world 0 demo_pane "failing_runner ''can't find pane''" "[]"
          "''can't find pane''" "RunnerError ''exit status 1''"]
        Capture_result [of demo_world 0 demo_pane "ok_runner (''$ ls'' @ [NL])" "''$ ls'' @ [NL]" "[]"]
  by (simp add: failing_runner_def ok_runner_def)

section \<open>Target encoding\<close>

text \<open>
  Claim C8. The window target of a pane is \<open>SessionName:WindowId\<close> and its pane target
  is \<open>SessionName:WindowId.ID\<close>, with the numbers in decimal; a pane named main with
  window 2 and index 1 gives main:2.1 and main:2; panes that agree on the three fields
  have the same targets; and these are the strings \<open>SetFocus\<close> and \<open>MovePane\<close> hand to
  the runner.
\<close>

theorem target_encoding:
  "window_target p = SessionName p @ '':'' @ itoa (WindowId p) \<and>
   pane_target p = SessionName p @ '':'' @ itoa (WindowId p) @ ''.'' @ itoa (ID p) \<and>
   (SessionName p = ''main'' \<and> WindowId p = 2 \<and> ID p = 1 \<longrightarrow>
      pane_target p = ''main:2.1'' \<and> window_target p = ''main:2'') \<and>
   (SessionName p = SessionName q \<and> WindowId p = WindowId q \<and> ID p = ID q \<longrightarrow>
      pane_target p = pane_target q \<and> window_target p = window_target q) \<and>
   (heap w a = Some p \<and> heap w b = Some q \<longrightarrow>
      calls (snd (SetFocus a rn w)) =
        calls w @ [[''select-window'', ''-t'', window_target p],
                   [''select-pane'', ''-t'', pane_target p]] \<and>
      calls (snd (MovePane a b focus rn w)) =
        calls w @ [[''join-pane'', ''-s'', pane_target p, ''-t'', window_target q] @
                   (if focus then [] else [''-d''])])"
  by (auto simp add: window_target_eq pane_target_eq itoa_eval SetFocus_def MovePane_def
        RunCmd_def Let_def split_beta calls_store heap_store)

theorem target_encoding_witness:
  "pane_target demo_pane = ''main:2.1'' \<and> window_target demo_pane = ''main:2'' \<and>
   pane_target (demo_pane\<lparr>SessionId := 7, WindowName := ''other'', Active := False\<rparr>)
     = pane_target demo_pane \<and>
   calls (snd (SetFocus 0 (ok_runner []) demo_world)) =
     [[''select-window'', ''-t'', ''main:2''], [''select-pane'', ''-t'', ''main:2.1'']] \<and>
   calls (snd (MovePane 0 1 False (ok_runner []) demo_world)) =
     [[''join-pane'', ''-s'', ''main:2.1'', ''-t'', ''main:5'', ''-d'']]"
  using target_encoding [of demo_pane "demo_pane\<lparr>SessionId := 7, WindowName := ''other'', Active := False\<rparr>"
          demo_world 0 0 "ok_runner []" False]
        target_encoding [of demo_pane demo_dest demo_world 0 1 "ok_runner []" False]
  by (simp add: demo_pane_def demo_dest_def itoa_eval window_target_eq pane_target_eq)

end
